theory Spec2Isabelle
  imports Main "HOL-Library.Word"
begin

section \<open>Python values used by extract\_vbios.py\<close>

text \<open>
  A \<open>bytes\<close> object is a list of 8-bit words. A \<open>str\<close> is a \<open>string\<close>; every
  character of the model is read as the code point of the same number (0 to 255), which
  covers the ASCII text that sysfs attributes and the console answers consist of.
\<close>

type_synonym byte = "8 word"

text \<open>
  The exceptions that the modelled code can meet. \<open>PermissionError\<close> is the one class the
  source catches by name; \<open>OSError\<close> stands for every other I/O exception
  (FileNotFoundError, IOError, UnicodeDecodeError and the like), which the source only ever
  catches as \<open>Exception\<close>.
\<close>

datatype exn = PermissionError | OSError | StructError | IndexError | EOFError

text \<open>\<open>xs[a:b]\<close> for constant non-negative bounds: slicing never raises, it clips.\<close>

definition py_slice :: "'a list \<Rightarrow> nat \<Rightarrow> nat \<Rightarrow> 'a list" where
  "py_slice xs a b = take (b - a) (drop a xs)"

text \<open>
  \<open>xs[i]\<close> on a list: the positions \<open>0\<close> to \<open>len(xs) - 1\<close> are read from the front,
  the positions \<open>-len(xs)\<close> to \<open>-1\<close> from the back, and every other one raises
  \<open>IndexError\<close>.
\<close>

definition py_getitem :: "'a list \<Rightarrow> int \<Rightarrow> exn + 'a" where
  "py_getitem xs i =
     (if 0 \<le> i \<and> i < int (length xs) then Inr (xs ! nat i)
      else if i < 0 \<and> - int (length xs) \<le> i then Inr (xs ! nat (int (length xs) + i))
      else Inl IndexError)"

text \<open>
  \<open>struct.unpack('<H', b)[0]\<close>: the buffer must hold exactly two bytes, otherwise
  \<open>struct.error\<close> is raised; the value is the unsigned little-endian 16-bit number.
\<close>

definition struct_unpack_H :: "byte list \<Rightarrow> exn + nat" where
  "struct_unpack_H b =
     (case b of [lo, hi] \<Rightarrow> Inr (unat lo + 256 * unat hi) | _ \<Rightarrow> Inl StructError)"

text \<open>
  \<open>str.lower()\<close> on code points below 256: the ASCII capitals and the Latin-1 capitals
  (all of 0xC0 to 0xDE but the multiplication sign 0xD7) move up by 0x20.
\<close>

definition lower_char :: "char \<Rightarrow> char" where
  "lower_char c =
     (let n = (of_char c :: nat)
      in if (65 \<le> n \<and> n \<le> 90) \<or> (192 \<le> n \<and> n \<le> 222 \<and> n \<noteq> 215)
         then char_of (n + 32) else c)"

definition py_lower :: "string \<Rightarrow> string" where
  "py_lower s = map lower_char s"

text \<open>
  \<open>str.strip()\<close>: removes leading and trailing whitespace, where whitespace is what
  \<open>str.isspace\<close> accepts; below 256 these are 0x09 to 0x0D, 0x1C to 0x20, 0x85 and 0xA0.
\<close>

definition is_space :: "char \<Rightarrow> bool" where
  "is_space c =
     (let n = (of_char c :: nat)
      in (9 \<le> n \<and> n \<le> 13) \<or> (28 \<le> n \<and> n \<le> 32) \<or> n = 133 \<or> n = 160)"

definition py_strip :: "string \<Rightarrow> string" where
  "py_strip s = rev (dropWhile is_space (rev (dropWhile is_space s)))"

section \<open>The ROM validator\<close>

text \<open>
  The four report strings of \<open>validate_vbios\<close>, in the order of the source:
  \<^item> \<open>MsgTooSmall\<close>: "Dados muito pequenos";
  \<^item> \<open>MsgBadSignature\<close>: "Assinatura ROM invalida (esperado 55 AA)";
  \<^item> \<open>MsgPcirFound\<close>: "VBIOS valido (PCIR encontrado)";
  \<^item> \<open>MsgSignatureOnly\<close>: "VBIOS parece valido (assinatura 55 AA)".
\<close>

datatype vmsg = MsgTooSmall | MsgBadSignature | MsgPcirFound | MsgSignatureOnly

definition rom_signature :: "byte list" where
  "rom_signature = [0x55, 0xAA]"

definition pcir_signature :: "byte list" where
  "pcir_signature = [0x50, 0x43, 0x49, 0x52]"

text \<open>
  \<open>validate_vbios(data)\<close>. The argument is \<open>None\<close> or a bytes object; \<open>not data\<close> holds
  for \<open>None\<close> and for the empty bytes object. The only operation that can raise is
  \<open>struct.unpack\<close>, so the result is a sum.
\<close>

definition validate_vbios :: "byte list option \<Rightarrow> exn + (bool \<times> vmsg)" where
  "validate_vbios arg =
     (case arg of
        None \<Rightarrow> Inr (False, MsgTooSmall)
      | Some data \<Rightarrow>
          if data = [] \<or> length data < 64 then Inr (False, MsgTooSmall)
          else if py_slice data 0 2 \<noteq> rom_signature then Inr (False, MsgBadSignature)
          else (case struct_unpack_H (py_slice data 0x18 0x1A) of
                  Inl e \<Rightarrow> Inl e
                | Inr pci_offset \<Rightarrow>
                    if pci_offset + 4 \<le> length data
                       \<and> py_slice data pci_offset (pci_offset + 4) = pcir_signature
                    then Inr (True, MsgPcirFound)
                    else Inr (True, MsgSignatureOnly)))"

text \<open>
  The classification as the specification words it, with the reads written as indexed
  accesses: the little-endian 16-bit value at an offset, and the four steps in order.
\<close>

definition le16_at :: "byte list \<Rightarrow> nat \<Rightarrow> nat" where
  "le16_at img off = unat (img ! off) + 256 * unat (img ! (off + 1))"

definition classify_spec :: "byte list option \<Rightarrow> bool \<times> vmsg" where
  "classify_spec arg =
     (case arg of
        None \<Rightarrow> (False, MsgTooSmall)
      | Some img \<Rightarrow>
          if length img < 64 then (False, MsgTooSmall)
          else if [img ! 0, img ! 1] \<noteq> [0x55, 0xAA] then (False, MsgBadSignature)
          else if le16_at img 0x18 + 4 \<le> length img
                  \<and> map (\<lambda>k. img ! (le16_at img 0x18 + k)) [0, 1, 2, 3]
                      = [0x50, 0x43, 0x49, 0x52]
               then (True, MsgPcirFound)
               else (True, MsgSignatureOnly))"

section \<open>Device names\<close>

definition devices :: "string \<rightharpoonup> string" where
  "devices = map_of
     [(''0x2684'', ''RTX 4090''),
      (''0x2685'', ''RTX 4090 D''),
      (''0x2702'', ''RTX 4080 Super''),
      (''0x2704'', ''RTX 4080''),
      (''0x2705'', ''RTX 4070 Ti Super''),
      (''0x2782'', ''RTX 4070 Ti''),
      (''0x2786'', ''RTX 4070''),
      (''0x2860'', ''RTX 4070 Super'')]"

text \<open>\<open>devices.get(device_id.lower(), f"Unknown ({device_id})")\<close>\<close>

definition get_device_name :: "string \<Rightarrow> string" where
  "get_device_name device_id =
     (case devices (py_lower device_id) of
        Some name \<Rightarrow> name
      | None \<Rightarrow> ''Unknown ('' @ device_id @ '')'')"

section \<open>The world outside the process\<close>

text \<open>
  What the operating system answers is a parameter of the model (\<open>env\<close>); what the program
  changes or emits is the state (\<open>world\<close>), threaded through every function that does I/O.
\<close>

text \<open>
  A sysfs attribute file of a PCI device directory: absent, present but failing to be read
  (any exception of \<open>open\<close> or \<open>read\<close>), or present with its text.
\<close>

datatype attr = Absent | Unreadable exn | Text string

record pci_entry =
  dir_name :: string
  vendor_attr :: attr
  device_attr :: attr

text \<open>
  The \<open>rom\<close> attribute of one device: the outcome of writing a token to it (\<open>None\<close> when
  the write succeeds) and the outcome of reading it.
\<close>

record rom_script =
  write_result :: "byte list \<Rightarrow> exn option"
  read_result :: "exn + byte list"

text \<open>
  The directory \<open>PCI_BUS_PATH\<close>: it does not exist, or it exists and \<open>os.listdir\<close>
  raises on it (a directory that may not be read, say), or it is listed, with its entries
  in the order of \<open>os.listdir\<close>.
\<close>

datatype pci_root_state =
    RootMissing
  | RootUnlistable exn
  | RootListed "pci_entry list"

text \<open>
  What becomes of \<open>with open(path, 'wb') as f: f.write(data)\<close> on a regular file: all
  of the data is written; or \<open>open\<close> raises, and the file system is as before; or
  \<open>open\<close> has created or truncated the file and an exception follows when only the
  first \<open>k\<close> bytes have reached it.
\<close>

datatype write_outcome =
    Written
  | OpenFailed exn
  | WriteFailed exn nat

record env =
  pci_root :: pci_root_state
  rom_attr :: "string \<rightharpoonup> rom_script"
  output_write :: "string \<Rightarrow> write_outcome"
  stdin_line :: "string option"

text \<open>
  \<open>rom_attr\<close> maps a PCI address to its \<open>rom\<close> attribute, when that file exists.
  \<open>output_write\<close> is the outcome of writing an output file at a path, \<open>stdin_line\<close>
  the line that \<open>input()\<close> reads (\<open>None\<close> at end of file).
\<close>

datatype event =
    EvRomWrite string "byte list"
  | EvRomRead string
  | EvFileWrite string "byte list"
  | EvInput

text \<open>The lines the program prints, one constructor for each \<open>print\<close> of the source.\<close>

datatype line =
    LinePciPathMissing
  | LineRomNotFound string
  | LinePermissionDenied
  | LineReadError string exn
  | LineValidation vmsg
  | LineMaybeCorrupt
  | LinePrompt
  | LineSaved string nat
  | LineBanner
  | LineSearching
  | LineNoGpu
  | LineNoGpuHint nat
  | LineFound nat
  | LineGpu nat string string string
  | LineBadIndex int
  | LineExtracting string string
  | LineExtractFailed
  | LineSuccess
  | LineNextSteps
  | LineStep nat string

text \<open>
  \<open>rom_enabled\<close> is the ROM-BAR enable state of each device, \<open>files\<close> the regular files
  written, \<open>trace\<close> every attempted write or read of a \<open>rom\<close> attribute, write of an
  output file and read of the console, in order, and \<open>stdout\<close> the printed lines.
\<close>

record world =
  rom_enabled :: "string \<Rightarrow> bool"
  files :: "string \<rightharpoonup> byte list"
  trace :: "event list"
  stdout :: "line list"

definition print :: "line \<Rightarrow> world \<Rightarrow> world" where
  "print l w = w\<lparr>stdout := stdout w @ [l]\<rparr>"

definition log_event :: "event \<Rightarrow> world \<Rightarrow> world" where
  "log_event ev w = w\<lparr>trace := trace w @ [ev]\<rparr>"

definition token_enable :: "byte list" where
  "token_enable = [0x31]"

definition token_disable :: "byte list" where
  "token_disable = [0x30]"

text \<open>
  \<open>with open(rom_path, 'wb') as f: f.write(token)\<close>. A write that succeeds sets the
  enable state of the device: enabled by \<open>b"1"\<close>, disabled by \<open>b"0"\<close>.
\<close>

definition rom_write :: "rom_script \<Rightarrow> string \<Rightarrow> byte list \<Rightarrow> world \<Rightarrow> (exn + unit) \<times> world" where
  "rom_write rom pci_addr token w =
     (let w1 = log_event (EvRomWrite pci_addr token) w
      in case write_result rom token of
           Some e \<Rightarrow> (Inl e, w1)
         | None \<Rightarrow>
             (Inr (), w1\<lparr>rom_enabled := (rom_enabled w1)(pci_addr := (token = token_enable))\<rparr>))"

text \<open>\<open>with open(rom_path, 'rb') as f: data = f.read()\<close>\<close>

definition rom_read :: "rom_script \<Rightarrow> string \<Rightarrow> world \<Rightarrow> (exn + byte list) \<times> world" where
  "rom_read rom pci_addr w = (read_result rom, log_event (EvRomRead pci_addr) w)"

text \<open>\<open>with open(output_file, 'wb') as f: f.write(data)\<close>\<close>

definition file_write :: "env \<Rightarrow> string \<Rightarrow> byte list \<Rightarrow> world \<Rightarrow> (exn + unit) \<times> world" where
  "file_write env path data w =
     (let w1 = log_event (EvFileWrite path data) w
      in case output_write env path of
           Written \<Rightarrow> (Inr (), w1\<lparr>files := (files w1)(path \<mapsto> data)\<rparr>)
         | OpenFailed e \<Rightarrow> (Inl e, w1)
         | WriteFailed e k \<Rightarrow> (Inl e, w1\<lparr>files := (files w1)(path \<mapsto> take k data)\<rparr>))"

text \<open>\<open>input(prompt)\<close>: prints the prompt, then reads a line or raises \<open>EOFError\<close>.\<close>

definition input_line :: "env \<Rightarrow> world \<Rightarrow> (exn + string) \<times> world" where
  "input_line env w =
     (let w1 = log_event EvInput (print LinePrompt w)
      in case stdin_line env of None \<Rightarrow> (Inl EOFError, w1) | Some s \<Rightarrow> (Inr s, w1))"

section \<open>The device enumerator\<close>

definition attr_exists :: "attr \<Rightarrow> bool" where
  "attr_exists a = (a \<noteq> Absent)"

definition read_attr :: "attr \<Rightarrow> exn + string" where
  "read_attr a = (case a of Absent \<Rightarrow> Inl OSError | Unreadable e \<Rightarrow> Inl e | Text s \<Rightarrow> Inr s)"

text \<open>
  The \<open>for device_dir in os.listdir(PCI_BUS_PATH)\<close> loop of \<open>find_nvidia_gpus\<close>, with the
  list \<open>gpus\<close> built so far as accumulator. Every exception inside the \<open>try\<close> skips the entry.
\<close>

fun scan_devices :: "pci_entry list \<Rightarrow> (string \<times> string) list \<Rightarrow> (string \<times> string) list" where
  "scan_devices [] gpus = gpus"
| "scan_devices (e # es) gpus =
     (if \<not> (attr_exists (vendor_attr e) \<and> attr_exists (device_attr e))
      then scan_devices es gpus
      else (case read_attr (vendor_attr e) of
              Inl _ \<Rightarrow> scan_devices es gpus
            | Inr vtext \<Rightarrow>
                (case read_attr (device_attr e) of
                   Inl _ \<Rightarrow> scan_devices es gpus
                 | Inr dtext \<Rightarrow>
                     if py_strip vtext = ''0x10de''
                     then scan_devices es (gpus @ [(dir_name e, py_strip dtext)])
                     else scan_devices es gpus)))"

text \<open>
  \<open>find_nvidia_gpus()\<close>. The call of \<open>os.listdir\<close> is outside the \<open>try\<close> of the loop
  body, so its exception leaves the function.
\<close>

definition find_nvidia_gpus ::
  "env \<Rightarrow> world \<Rightarrow> (exn + (string \<times> string) list) \<times> world" where
  "find_nvidia_gpus env w =
     (case pci_root env of
        RootMissing \<Rightarrow> (Inr [], print LinePciPathMissing w)
      | RootUnlistable e \<Rightarrow> (Inl e, w)
      | RootListed entries \<Rightarrow> (Inr (scan_devices entries []), w))"

section \<open>The ROM capture protocol\<close>

text \<open>
  The body of the \<open>try\<close> block of \<open>read_vbios_from_device\<close>: the enable write, the read
  and the disable write in sequence; the first exception leaves the block.
\<close>

definition capture_body :: "rom_script \<Rightarrow> string \<Rightarrow> world \<Rightarrow> (exn + byte list) \<times> world" where
  "capture_body rom pci_addr w =
     (case rom_write rom pci_addr token_enable w of
        (Inl e, w1) \<Rightarrow> (Inl e, w1)
      | (Inr _, w1) \<Rightarrow>
          (case rom_read rom pci_addr w1 of
             (Inl e, w2) \<Rightarrow> (Inl e, w2)
           | (Inr data, w2) \<Rightarrow>
               (case rom_write rom pci_addr token_disable w2 of
                  (Inl e, w3) \<Rightarrow> (Inl e, w3)
                | (Inr _, w3) \<Rightarrow> (Inr data, w3))))"

text \<open>
  \<open>read_vbios_from_device(pci_addr)\<close>: returns the bytes read or \<open>None\<close>. The two
  \<open>except\<close> clauses are tried in order: \<open>PermissionError\<close>, then any \<open>Exception\<close>.
\<close>

definition read_vbios_from_device :: "env \<Rightarrow> string \<Rightarrow> world \<Rightarrow> byte list option \<times> world" where
  "read_vbios_from_device env pci_addr w =
     (case rom_attr env pci_addr of
        None \<Rightarrow> (None, print (LineRomNotFound pci_addr) w)
      | Some rom \<Rightarrow>
          (case capture_body rom pci_addr w of
             (Inr data, w1) \<Rightarrow> (Some data, w1)
           | (Inl e, w1) \<Rightarrow>
               if e = PermissionError then (None, print LinePermissionDenied w1)
               else (None, print (LineReadError pci_addr e) w1)))"

section \<open>Persistence\<close>

text \<open>
  \<open>save_vbios(data, output_file)\<close>. An exception of the validator, of \<open>input\<close> or of the
  write is not caught here and leaves the function. \<open>LineSaved\<close> carries the length in
  bytes, from which the source prints the size in KB.
\<close>

definition write_and_report :: "env \<Rightarrow> byte list \<Rightarrow> string \<Rightarrow> world \<Rightarrow> (exn + bool) \<times> world" where
  "write_and_report env data output_file w =
     (case file_write env output_file data w of
        (Inl e, w1) \<Rightarrow> (Inl e, w1)
      | (Inr _, w1) \<Rightarrow> (Inr True, print (LineSaved output_file (length data)) w1))"

definition save_vbios :: "env \<Rightarrow> byte list \<Rightarrow> string \<Rightarrow> world \<Rightarrow> (exn + bool) \<times> world" where
  "save_vbios env data output_file w =
     (case validate_vbios (Some data) of
        Inl e \<Rightarrow> (Inl e, w)
      | Inr (valid, message) \<Rightarrow>
          (let w1 = print (LineValidation message) w
           in if \<not> valid
              then (case input_line env (print LineMaybeCorrupt w1) of
                      (Inl e, w2) \<Rightarrow> (Inl e, w2)
                    | (Inr response, w2) \<Rightarrow>
                        if py_lower response \<noteq> ''y'' then (Inr False, w2)
                        else write_and_report env data output_file w2)
              else write_and_report env data output_file w1))"

section \<open>The command line program\<close>

record args =
  arg_output :: string
  arg_list :: bool
  arg_index :: int

text \<open>
  How a run of \<open>main\<close> ends: \<open>sys.exit(n)\<close>, a normal return, or an exception that nothing
  catches. The interpreter turns a normal return into exit status 0 and an uncaught
  exception into exit status 1.
\<close>

datatype outcome = Exit int | Returned | Uncaught exn

definition exit_code :: "outcome \<Rightarrow> int" where
  "exit_code out = (case out of Exit n \<Rightarrow> n | Returned \<Rightarrow> 0 | Uncaught _ \<Rightarrow> 1)"

text \<open>The \<open>for i, (addr, dev_id) in enumerate(gpus)\<close> loop, \<open>i\<close> being the next number.\<close>

fun print_gpus :: "nat \<Rightarrow> (string \<times> string) list \<Rightarrow> world \<Rightarrow> world" where
  "print_gpus i [] w = w"
| "print_gpus i ((addr, dev_id) # rest) w =
     print_gpus (Suc i) rest (print (LineGpu i addr (get_device_name dev_id) dev_id) w)"

text \<open>
  \<open>main\<close> from the line after the index check: the selected pair is taken apart, the
  ROM is captured and saved. \<open>not data\<close> holds for \<open>None\<close> and for the empty bytes object.
\<close>

definition extract_selected :: "args \<Rightarrow> env \<Rightarrow> string \<times> string \<Rightarrow> world \<Rightarrow> outcome \<times> world" where
  "extract_selected a env sel w =
     (case sel of (addr, dev_id) \<Rightarrow>
        (let name = get_device_name dev_id;
             w1 = print (LineExtracting name addr) w
         in case read_vbios_from_device env addr w1 of
              (None, w2) \<Rightarrow> (Exit 1, print LineExtractFailed w2)
            | (Some data, w2) \<Rightarrow>
                if data = [] then (Exit 1, print LineExtractFailed w2)
                else (case save_vbios env data (arg_output a) w2 of
                        (Inl e, w3) \<Rightarrow> (Uncaught e, w3)
                      | (Inr ok, w3) \<Rightarrow>
                          if ok
                          then (Returned,
                                print (LineStep 3 [])
                                  (print (LineStep 2 [])
                                    (print (LineStep 1 (arg_output a))
                                      (print LineNextSteps (print LineSuccess w3)))))
                          else (Returned, w3))))"

text \<open>
  \<open>main()\<close> after \<open>parse_args\<close>, the parsed arguments being the parameter \<open>a\<close>. An
  exception of \<open>find_nvidia_gpus\<close> is not caught.
\<close>

definition main :: "args \<Rightarrow> env \<Rightarrow> world \<Rightarrow> outcome \<times> world" where
  "main a env w =
     (case find_nvidia_gpus env (print LineSearching (print LineBanner w)) of
        (Inl e, w1) \<Rightarrow> (Uncaught e, w1)
      | (Inr gpus, w1) \<Rightarrow>
          if gpus = []
          then (Exit 1,
                print (LineNoGpuHint 3)
                  (print (LineNoGpuHint 2)
                    (print (LineNoGpuHint 1)
                      (print (LineNoGpuHint 0) (print LineNoGpu w1)))))
          else (let w2 = print_gpus 0 gpus (print (LineFound (length gpus)) w1)
                in if arg_list a then (Exit 0, w2)
                   else if arg_index a \<ge> int (length gpus)
                   then (Exit 1, print (LineBadIndex (arg_index a)) w2)
                   else (case py_getitem gpus (arg_index a) of
                           Inl e \<Rightarrow> (Uncaught e, w2)
                         | Inr sel \<Rightarrow> extract_selected a env sel w2)))"

section \<open>Sample inputs\<close>

text \<open>
  A 100-byte image with the ROM signature, the pointer 0x20 at offset 0x18 and \<open>PCIR\<close> at
  offset 0x20.
\<close>

definition scenario_a :: "byte list" where
  "scenario_a = [0x55, 0xAA] @ replicate 22 0 @ [0x20, 0x00] @ replicate 6 0
                 @ [0x50, 0x43, 0x49, 0x52] @ replicate 64 0"

text \<open>A 64-byte image with the ROM signature whose pointer at offset 0x18 is 0xFFFF.\<close>

definition far_pointer_image :: "byte list" where
  "far_pointer_image = [0x55, 0xAA] @ replicate 22 0 @ [0xFF, 0xFF] @ replicate 38 0"

text \<open>An initial world: every ROM disabled, no file written, nothing traced or printed.\<close>

definition blank_world :: world where
  "blank_world = \<lparr>rom_enabled = (\<lambda>_. False), files = Map.empty, trace = [], stdout = []\<rparr>"

definition gpu_addr :: string where
  "gpu_addr = ''0000:01:00.0''"

definition second_addr :: string where
  "second_addr = ''0000:02:00.0''"

text \<open>
  A system with one NVIDIA device (an RTX 4090), its \<open>rom\<close> attribute behaving as the
  script says, every output path writable, and the console answering \<open>answer\<close>.
\<close>

definition one_gpu_env :: "rom_script \<Rightarrow> string \<Rightarrow> env" where
  "one_gpu_env rom answer =
     \<lparr>pci_root = RootListed [\<lparr>dir_name = gpu_addr,
                          vendor_attr = Text (''0x10de'' @ [CHR 0x0A]),
                          device_attr = Text (''0x2684'' @ [CHR 0x0A])\<rparr>],
      rom_attr = [gpu_addr \<mapsto> rom],
      output_write = (\<lambda>_. Written),
      stdin_line = Some answer\<rparr>"

text \<open>Both writes succeed and the read returns \<open>scenario_a\<close>.\<close>

definition rom_ok :: rom_script where
  "rom_ok = \<lparr>write_result = (\<lambda>_. None), read_result = Inr scenario_a\<rparr>"

text \<open>Both writes succeed and the read returns 50 zero bytes, too few for a ROM.\<close>

definition rom_small :: rom_script where
  "rom_small = \<lparr>write_result = (\<lambda>_. None), read_result = Inr (replicate 50 0)\<rparr>"

text \<open>The writes succeed, the read raises an I/O error.\<close>

definition rom_read_fails :: rom_script where
  "rom_read_fails = \<lparr>write_result = (\<lambda>_. None), read_result = Inl OSError\<rparr>"

text \<open>The enable write and the read succeed, the disable write raises an I/O error.\<close>

definition rom_disable_fails :: rom_script where
  "rom_disable_fails =
     \<lparr>write_result = (\<lambda>token. if token = token_disable then Some OSError else None),
      read_result = Inr scenario_a\<rparr>"

text \<open>Every write is refused with a permission error.\<close>

definition rom_enable_denied :: rom_script where
  "rom_enable_denied =
     \<lparr>write_result = (\<lambda>_. Some PermissionError), read_result = Inr scenario_a\<rparr>"

text \<open>One device whose vendor attribute reads \<open>0x10DE\<close>, in capitals.\<close>

definition capital_vendor_env :: env where
  "capital_vendor_env =
     \<lparr>pci_root = RootListed [\<lparr>dir_name = gpu_addr,
                          vendor_attr = Text (''0x10DE'' @ [CHR 0x0A]),
                          device_attr = Text (''0x2684'' @ [CHR 0x0A])\<rparr>],
      rom_attr = Map.empty,
      output_write = (\<lambda>_. Written),
      stdin_line = None\<rparr>"

text \<open>Two NVIDIA devices, of which only the second has a \<open>rom\<close> attribute.\<close>

definition two_gpu_env :: env where
  "two_gpu_env =
     \<lparr>pci_root = RootListed [\<lparr>dir_name = gpu_addr,
                          vendor_attr = Text (''0x10de'' @ [CHR 0x0A]),
                          device_attr = Text (''0x2684'' @ [CHR 0x0A])\<rparr>,
                        \<lparr>dir_name = second_addr,
                          vendor_attr = Text (''0x10de'' @ [CHR 0x0A]),
                          device_attr = Text (''0x2704'' @ [CHR 0x0A])\<rparr>],
      rom_attr = [second_addr \<mapsto> rom_ok],
      output_write = (\<lambda>_. Written),
      stdin_line = None\<rparr>"

text \<open>The command line without options: \<open>-o vbios.rom\<close>, no \<open>-l\<close>, \<open>-i 0\<close>.\<close>

definition default_args :: args where
  "default_args = \<lparr>arg_output = ''vbios.rom'', arg_list = False, arg_index = 0\<rparr>"

section \<open>Slices of a long enough image\<close>

lemma slice_nth:
  "a \<le> b \<Longrightarrow> b \<le> length xs \<Longrightarrow> py_slice xs a b = map (\<lambda>k. xs ! (a + k)) [0..<b - a]"
  by (simp add: py_slice_def list_eq_iff_nth_eq)

lemma upt_2: "[0..<2] = [0, 1]"
  by (simp add: upt_rec)

lemma upt_4: "[0..<4] = [0, 1, 2, 3]"
  by (simp add: upt_rec)

lemma slice_sig: "64 \<le> length xs \<Longrightarrow> py_slice xs 0 2 = [xs ! 0, xs ! 1]"
  by (simp add: slice_nth upt_2)

lemma slice_ptr: "64 \<le> length xs \<Longrightarrow> py_slice xs 0x18 0x1A = [xs ! 0x18, xs ! 0x19]"
  by (simp add: slice_nth upt_2)

lemma slice_pcir:
  "p + 4 \<le> length xs \<Longrightarrow> py_slice xs p (p + 4) = map (\<lambda>k. xs ! (p + k)) [0, 1, 2, 3]"
  by (simp add: slice_nth upt_4)

text \<open>On an image of at least 64 bytes \<open>struct.unpack\<close> gets its two bytes and cannot raise.\<close>

lemma unpack_ptr:
  "64 \<le> length xs \<Longrightarrow> struct_unpack_H (py_slice xs 0x18 0x1A) = Inr (le16_at xs 0x18)"
  by (simp add: slice_ptr struct_unpack_H_def le16_at_def)

section \<open>The validator\<close>

text \<open>
  Claim C4. For every argument (absent, or any byte sequence) \<open>validate_vbios\<close> returns
  exactly the four-step classification of the specification: too small when the image is
  absent or shorter than 64 bytes; else bad signature when the first two bytes are not
  0x55 0xAA; else PCI Data Structure located when the little-endian 16-bit pointer \<open>p\<close> at
  offset 0x18 has \<open>p + 4 \<le> length\<close> and the four bytes at \<open>p\<close> are \<open>PCIR\<close>; else the
  weaker signature-present result. The first two results are invalid, the last two valid.
\<close>

theorem validate_vbios_classification: "validate_vbios arg = Inr (classify_spec arg)"
proof (cases arg)
  case None
  then show ?thesis by (simp add: validate_vbios_def classify_spec_def)
next
  case (Some data)
  show ?thesis
  proof (cases "length data < 64")
    case True
    with Some show ?thesis by (simp add: validate_vbios_def classify_spec_def)
  next
    case False
    then have len: "64 \<le> length data" by simp
    then have ne: "data \<noteq> []" by auto
    have sig: "py_slice data 0 2 = [data ! 0, data ! 1]" using len by (rule slice_sig)
    have ptr: "struct_unpack_H (py_slice data 0x18 0x1A) = Inr (le16_at data 0x18)"
      using len by (rule unpack_ptr)
    show ?thesis
    proof (cases "le16_at data 0x18 + 4 \<le> length data")
      case True
      from slice_pcir [OF True] Some len ne sig ptr True show ?thesis
        by (simp add: validate_vbios_def classify_spec_def rom_signature_def pcir_signature_def)
    next
      case False
      with Some len ne sig ptr show ?thesis
        by (simp add: validate_vbios_def classify_spec_def rom_signature_def pcir_signature_def)
    qed
  qed
qed

theorem validate_vbios_classification_witness:
  "validate_vbios (Some scenario_a) = Inr (True, MsgPcirFound)"
  using validate_vbios_classification [of "Some scenario_a"]
  by (simp add: classify_spec_def le16_at_def scenario_a_def nth_append)

text \<open>
  Claim C7. \<open>validate_vbios\<close> never raises: for every argument, of every length, the
  empty sequence included, it returns a result. In particular, on an image of at least 64
  bytes that carries the ROM signature and whose pointer at offset 0x18 lies at or beyond
  the end of the image, the result is the weaker signature-present classification.
\<close>

theorem validate_vbios_total:
  "(\<exists>r. validate_vbios arg = Inr r) \<and>
   (arg = Some data \<longrightarrow> 64 \<le> length data \<longrightarrow> py_slice data 0 2 = rom_signature \<longrightarrow>
      length data \<le> le16_at data 0x18 \<longrightarrow>
      validate_vbios arg = Inr (True, MsgSignatureOnly))"
proof (intro conjI impI)
  show "\<exists>r. validate_vbios arg = Inr r"
  proof (cases arg)
    case None
    then show ?thesis by (auto simp: validate_vbios_def)
  next
    case (Some bytes)
    show ?thesis
    proof (cases "length bytes < 64")
      case True
      with Some show ?thesis by (auto simp: validate_vbios_def)
    next
      case False
      then have "struct_unpack_H (py_slice bytes 0x18 0x1A) = Inr (le16_at bytes 0x18)"
        by (simp add: unpack_ptr)
      with Some show ?thesis by (auto simp: validate_vbios_def)
    qed
  qed
next
  assume a: "arg = Some data" "64 \<le> length data" "py_slice data 0 2 = rom_signature"
    "length data \<le> le16_at data 0x18"
  from a(2) have "struct_unpack_H (py_slice data 0x18 0x1A) = Inr (le16_at data 0x18)"
    by (rule unpack_ptr)
  moreover from a(2) have "data \<noteq> []" by auto
  ultimately show "validate_vbios arg = Inr (True, MsgSignatureOnly)"
    using a by (simp add: validate_vbios_def)
qed

theorem validate_vbios_total_witness:
  "(\<exists>r. validate_vbios (Some far_pointer_image) = Inr r) \<and>
   length far_pointer_image = 64 \<and> le16_at far_pointer_image 0x18 = 65535 \<and>
   validate_vbios (Some far_pointer_image) = Inr (True, MsgSignatureOnly)"
  using validate_vbios_total [of "Some far_pointer_image" far_pointer_image]
  by (auto simp: far_pointer_image_def py_slice_def rom_signature_def le16_at_def nth_append)

section \<open>Device names\<close>

lemma devices_nonempty: "devices k = Some name \<Longrightarrow> name \<noteq> []"
  by (auto simp: devices_def split: if_splits)

text \<open>
  Claim C9 says that every identifier that is not present in the static table maps to the
  sentinel. The code looks up \<open>device_id.lower()\<close>: the identifier \<open>0X2684\<close> is not a
  key of the table, and its name is \<open>RTX 4090\<close>, not \<open>Unknown (0X2684)\<close>.
\<close>

theorem capital_id_is_resolved:
  "devices ''0X2684'' = None \<and> get_device_name ''0X2684'' = ''RTX 4090'' \<and>
   get_device_name ''0X2684'' \<noteq> ''Unknown (0X2684)''"
  by (simp add: get_device_name_def devices_def py_lower_def lower_char_def char_of_def
      bit_iff_odd)

text \<open>
  Claim C9, amended. \<open>get_device_name\<close> is a total lookup by the identifier in lower
  case: for every device-ID string it returns a non-empty string; an identifier whose
  lower-case form is a key of the table yields the name stored under that key; and an
  identifier whose lower-case form is not in the table yields \<open>Unknown (<id>)\<close> with the
  identifier as it was queried.
\<close>

theorem get_device_name_lookup:
  "get_device_name device_id \<noteq> [] \<and>
   (devices (py_lower device_id) = Some name \<longrightarrow> get_device_name device_id = name) \<and>
   (devices (py_lower device_id) = None \<longrightarrow>
      get_device_name device_id = ''Unknown ('' @ device_id @ '')'')"
  by (auto simp: get_device_name_def dest: devices_nonempty split: option.splits)

theorem get_device_name_lookup_witness:
  "devices (py_lower ''0x2704'') = Some ''RTX 4080'' \<and>
   get_device_name ''0x2704'' = ''RTX 4080'' \<and>
   devices (py_lower ''0xFFFF'') = None \<and>
   get_device_name ''0xFFFF'' = ''Unknown (0xFFFF)''"
  using get_device_name_lookup [of "''0x2704''" "''RTX 4080''"]
    get_device_name_lookup [of "''0xFFFF''" "''RTX 4080''"]
  by (simp add: devices_def py_lower_def lower_char_def char_of_def bit_iff_odd)

section \<open>The capture protocol\<close>

lemma tokens_differ: "token_disable \<noteq> token_enable"
  by (simp add: token_disable_def token_enable_def)

lemmas capture_defs = read_vbios_from_device_def capture_body_def rom_write_def rom_read_def
  log_event_def print_def Let_def

text \<open>
  When all three steps succeed, the disable write is the last event and the ROM is
  disabled on return.
\<close>

lemma capture_success_disables:
  assumes "rom_attr env pci_addr = Some rom"
    and "write_result rom token_enable = None"
    and "read_result rom = Inr data"
    and "write_result rom token_disable = None"
  shows "read_vbios_from_device env pci_addr w =
           (Some data,
            w\<lparr>rom_enabled := (rom_enabled w)(pci_addr := False),
              trace := trace w @ [EvRomWrite pci_addr token_enable, EvRomRead pci_addr,
                                  EvRomWrite pci_addr token_disable]\<rparr>)"
  using assms by (simp add: capture_defs tokens_differ)

text \<open>
  Claim C1 says that after a successful enable write the disable write is issued on every
  path, also when the read raises. The code does so only when the read succeeds
  (\<open>capture_success_disables\<close>). On a device whose enable write succeeds and whose read
  raises an I/O error, the exception leaves the \<open>try\<close> block before the disable write:
  the trace ends with the read, no \<open>b"0"\<close> is written, and the ROM is still enabled when
  \<open>read_vbios_from_device\<close> returns \<open>None\<close>.
\<close>

theorem read_failure_skips_disable:
  "read_vbios_from_device (one_gpu_env rom_read_fails ''y'') gpu_addr blank_world =
     (None,
      \<lparr>rom_enabled = (\<lambda>_. False)(gpu_addr := True),
       files = Map.empty,
       trace = [EvRomWrite gpu_addr token_enable, EvRomRead gpu_addr],
       stdout = [LineReadError gpu_addr OSError]\<rparr>)"
  by (simp add: capture_defs one_gpu_env_def rom_read_fails_def blank_world_def)

text \<open>
  Claim C2 says that when the enable write and the read succeed and the disable write
  fails, the bytes read are still returned. They are not: on a device whose disable write
  raises an I/O error after \<open>scenario_a\<close> was read, \<open>read_vbios_from_device\<close> returns
  \<open>None\<close>.
\<close>

theorem disable_failure_loses_image:
  "write_result rom_disable_fails token_enable = None \<and>
   read_result rom_disable_fails = Inr scenario_a \<and>
   write_result rom_disable_fails token_disable = Some OSError \<and>
   fst (read_vbios_from_device (one_gpu_env rom_disable_fails ''y'') gpu_addr blank_world) = None"
  by (simp add: capture_defs one_gpu_env_def rom_disable_fails_def blank_world_def tokens_differ
      tokens_differ [symmetric])

text \<open>
  Claim C2, amended. For every capture in which the enable write and the read both succeed
  but the disable write fails, \<open>read_vbios_from_device\<close> returns \<open>None\<close>: the exception of
  the disable write is handled like every other exception of the capture, by the
  permission-denied line for a \<open>PermissionError\<close> and by the generic error line otherwise,
  and the bytes read are dropped. All three operations were attempted, and the ROM is
  left enabled.
\<close>

theorem disable_failure_is_capture_failure:
  assumes "rom_attr env pci_addr = Some rom"
    and "write_result rom token_enable = None"
    and "read_result rom = Inr data"
    and "write_result rom token_disable = Some e"
  shows "read_vbios_from_device env pci_addr w =
           (None,
            w\<lparr>rom_enabled := (rom_enabled w)(pci_addr := True),
              trace := trace w @ [EvRomWrite pci_addr token_enable, EvRomRead pci_addr,
                                  EvRomWrite pci_addr token_disable],
              stdout := stdout w @ [if e = PermissionError then LinePermissionDenied
                                    else LineReadError pci_addr e]\<rparr>)"
  using assms by (simp add: capture_defs)

theorem disable_failure_is_capture_failure_witness:
  "read_vbios_from_device (one_gpu_env rom_disable_fails ''y'') gpu_addr blank_world =
     (None,
      \<lparr>rom_enabled = (\<lambda>_. False)(gpu_addr := True),
       files = Map.empty,
       trace = [EvRomWrite gpu_addr token_enable, EvRomRead gpu_addr,
                EvRomWrite gpu_addr token_disable],
       stdout = [LineReadError gpu_addr OSError]\<rparr>)"
  using disable_failure_is_capture_failure
    [of "one_gpu_env rom_disable_fails ''y''" gpu_addr rom_disable_fails scenario_a OSError
        blank_world]
  by (simp add: one_gpu_env_def rom_disable_fails_def blank_world_def tokens_differ
      tokens_differ [symmetric])

text \<open>
  Claim C6. For every capture in which the enable write fails with a permission error,
  \<open>read_vbios_from_device\<close> returns \<open>None\<close> having attempted the enable write only (no
  read and no disable write appear in the trace, and no device state changes), and it
  reports the failure by the permission-denied line.
\<close>

theorem enable_denied_aborts:
  assumes "rom_attr env pci_addr = Some rom"
    and "write_result rom token_enable = Some PermissionError"
  shows "read_vbios_from_device env pci_addr w =
           (None,
            w\<lparr>trace := trace w @ [EvRomWrite pci_addr token_enable],
              stdout := stdout w @ [LinePermissionDenied]\<rparr>)"
  using assms by (simp add: capture_defs)

theorem enable_denied_aborts_witness:
  "read_vbios_from_device (one_gpu_env rom_enable_denied ''y'') gpu_addr blank_world =
     (None,
      \<lparr>rom_enabled = (\<lambda>_. False),
       files = Map.empty,
       trace = [EvRomWrite gpu_addr token_enable],
       stdout = [LinePermissionDenied]\<rparr>)"
  using enable_denied_aborts
    [of "one_gpu_env rom_enable_denied ''y''" gpu_addr rom_enable_denied blank_world]
  by (simp add: one_gpu_env_def rom_enable_denied_def blank_world_def)

section \<open>The enumerator\<close>

text \<open>
  The loop appends to the accumulator exactly the entries whose two attributes are read
  and whose stripped vendor text is the string \<open>0x10de\<close>.
\<close>

lemma scan_devices_set:
  "set (scan_devices es gpus) =
     set gpus \<union> {p. \<exists>e\<in>set es. \<exists>v d. p = (dir_name e, py_strip d) \<and> vendor_attr e = Text v
                      \<and> device_attr e = Text d \<and> py_strip v = ''0x10de''}"
proof (induction es arbitrary: gpus)
  case Nil
  then show ?case by simp
next
  case (Cons e es)
  show ?case
  proof (cases "vendor_attr e")
    case Absent
    then show ?thesis using Cons.IH [of gpus] by (auto simp: attr_exists_def)
  next
    case (Unreadable x)
    then show ?thesis using Cons.IH [of gpus] by (auto simp: attr_exists_def read_attr_def)
  next
    case v: (Text v)
    show ?thesis
    proof (cases "device_attr e")
      case Absent
      then show ?thesis using v Cons.IH [of gpus] by (auto simp: attr_exists_def)
    next
      case (Unreadable x)
      then show ?thesis using v Cons.IH [of gpus] by (auto simp: attr_exists_def read_attr_def)
    next
      case d: (Text d)
      show ?thesis
      proof (cases "py_strip v = ''0x10de''")
        case True
        then show ?thesis
          using v d Cons.IH [of "gpus @ [(dir_name e, py_strip d)]"]
          by (auto simp: attr_exists_def read_attr_def)
      next
        case False
        then show ?thesis
          using v d Cons.IH [of gpus]
          by (auto simp: attr_exists_def read_attr_def)
      qed
    qed
  qed
qed

lemma lower_target: "py_lower ''0x10de'' = ''0x10de''"
  by (simp add: py_lower_def lower_char_def)

text \<open>
  Claim C5 says that the vendor text is compared case-insensitively, so that every
  readable device whose trimmed vendor text equals \<open>0x10de\<close> up to case is listed. The
  comparison of the code is \<open>vendor == "0x10de"\<close>: a device whose vendor attribute reads
  \<open>0x10DE\<close> is equal to the target up to case and is not listed.
\<close>

theorem capital_vendor_not_listed:
  "py_lower (py_strip (''0x10DE'' @ [CHR 0x0A])) = ''0x10de'' \<and>
   fst (find_nvidia_gpus capital_vendor_env blank_world) = Inr []"
  by (simp add: find_nvidia_gpus_def capital_vendor_env_def attr_exists_def read_attr_def
      py_strip_def is_space_def py_lower_def lower_char_def char_of_def bit_iff_odd)

text \<open>
  Claim C5, amended. The enumerator compares each entry's vendor text, after trimming,
  exactly with \<open>0x10de\<close>: on a PCI root that is listed it returns a list, and a pair of address and device ID is in the returned list if and
  only if it comes from an entry whose vendor and device attributes are both read and
  whose trimmed vendor text is \<open>0x10de\<close>, the device ID being the trimmed device text.
  Hence every listed device has a vendor text that equals \<open>0x10de\<close> case-insensitively
  too, and no device whose vendor text differs from it case-insensitively is listed.
\<close>

theorem find_nvidia_gpus_exact:
  assumes "pci_root env = RootListed entries"
  shows "\<exists>gpus. fst (find_nvidia_gpus env w) = Inr gpus
         \<and> (((addr, dev) \<in> set gpus) =
              (\<exists>e\<in>set entries. \<exists>v d. dir_name e = addr \<and> vendor_attr e = Text v
                 \<and> device_attr e = Text d \<and> py_strip v = ''0x10de'' \<and> dev = py_strip d))
         \<and> ((addr, dev) \<in> set gpus \<longrightarrow>
              (\<exists>e\<in>set entries. \<exists>v. dir_name e = addr \<and> vendor_attr e = Text v
                 \<and> py_lower (py_strip v) = ''0x10de''))"
  using assms by (auto simp: find_nvidia_gpus_def scan_devices_set lower_target)

theorem find_nvidia_gpus_exact_witness:
  "\<exists>gpus. fst (find_nvidia_gpus (one_gpu_env rom_ok ''y'') blank_world) = Inr gpus
     \<and> (gpu_addr, ''0x2684'') \<in> set gpus"
  using find_nvidia_gpus_exact
    [where env = "one_gpu_env rom_ok ''y''" and w = blank_world and addr = gpu_addr
       and dev = "''0x2684''"]
  by (auto simp: one_gpu_env_def py_strip_def is_space_def)

section \<open>Persistence\<close>

lemmas save_defs = save_vbios_def write_and_report_def file_write_def input_line_def
  log_event_def print_def Let_def

lemma scenario_a_valid: "validate_vbios (Some scenario_a) = Inr (True, MsgPcirFound)"
  by (simp add: validate_vbios_def scenario_a_def py_slice_def struct_unpack_H_def
      rom_signature_def pcir_signature_def)

lemma small_invalid: "validate_vbios (Some (replicate 50 0)) = Inr (False, MsgTooSmall)"
  by (simp add: validate_vbios_def)

text \<open>
  Claim C8. For every image that the validator finds valid, \<open>save_vbios\<close> on a
  destination that the operating system lets it write returns \<open>True\<close>; afterwards the
  destination file holds exactly the image, and the only I/O event is one write of the
  whole image to that path. The console is not read, whatever the answer would be.
\<close>

theorem save_vbios_roundtrip:
  assumes "validate_vbios (Some data) = Inr (True, message)"
    and "output_write env output_file = Written"
  shows "save_vbios env data output_file w =
           (Inr True,
            w\<lparr>files := (files w)(output_file \<mapsto> data),
              trace := trace w @ [EvFileWrite output_file data],
              stdout := stdout w @ [LineValidation message,
                                    LineSaved output_file (length data)]\<rparr>)"
  using assms by (simp add: save_defs)

theorem save_vbios_roundtrip_witness:
  "save_vbios (one_gpu_env rom_ok ''n'') scenario_a ''vbios.rom'' blank_world =
     (Inr True,
      \<lparr>rom_enabled = (\<lambda>_. False),
       files = [''vbios.rom'' \<mapsto> scenario_a],
       trace = [EvFileWrite ''vbios.rom'' scenario_a],
       stdout = [LineValidation MsgPcirFound, LineSaved ''vbios.rom'' 100]\<rparr>)"
  using save_vbios_roundtrip
    [of scenario_a MsgPcirFound "one_gpu_env rom_ok ''n''" "''vbios.rom''" blank_world]
  by (simp add: scenario_a_valid one_gpu_env_def blank_world_def) (simp add: scenario_a_def)

text \<open>
  On an invalid image and an answer other than \<open>y\<close> or \<open>Y\<close>, \<open>save_vbios\<close> returns
  \<open>False\<close> and writes nothing.
\<close>

lemma save_vbios_declined:
  assumes "validate_vbios (Some data) = Inr (False, message)"
    and "stdin_line env = Some response" and "py_lower response \<noteq> ''y''"
  shows "save_vbios env data output_file w =
           (Inr False,
            w\<lparr>trace := trace w @ [EvInput],
              stdout := stdout w @ [LineValidation message, LineMaybeCorrupt, LinePrompt]\<rparr>)"
  using assms by (simp add: save_defs)

section \<open>The program\<close>

lemma one_gpu_found:
  "find_nvidia_gpus (one_gpu_env rom answer) w = (Inr [(gpu_addr, ''0x2684'')], w)"
  by (simp add: find_nvidia_gpus_def one_gpu_env_def attr_exists_def read_attr_def
      py_strip_def is_space_def)

lemma name_4090: "get_device_name ''0x2684'' = ''RTX 4090''"
  by (simp add: get_device_name_def devices_def py_lower_def lower_char_def)

lemma name_4080: "get_device_name ''0x2704'' = ''RTX 4080''"
  by (simp add: get_device_name_def devices_def py_lower_def lower_char_def)

text \<open>
  Claim C3 says that a run whose captured image is invalid and whose user declines the
  save ends with exit code 1. \<open>save_vbios\<close> does return \<open>False\<close> without writing
  (\<open>save_vbios_declined\<close>), but \<open>main\<close> only tests that result to print the success
  lines and then returns: with a 50-byte image and the answer \<open>n\<close> the run writes no file
  and ends by a normal return, which is exit code 0.
\<close>

theorem declined_save_exits_zero:
  "main default_args (one_gpu_env rom_small ''n'') blank_world =
     (Returned,
      \<lparr>rom_enabled = (\<lambda>_. False),
       files = Map.empty,
       trace = [EvRomWrite gpu_addr token_enable, EvRomRead gpu_addr,
                EvRomWrite gpu_addr token_disable, EvInput],
       stdout = [LineBanner, LineSearching, LineFound 1,
                 LineGpu 0 gpu_addr ''RTX 4090'' ''0x2684'',
                 LineExtracting ''RTX 4090'' gpu_addr,
                 LineValidation MsgTooSmall, LineMaybeCorrupt, LinePrompt]\<rparr>)
   \<and> exit_code Returned = 0"
  apply (simp add: main_def one_gpu_found print_def)
  apply (simp add: default_args_def py_getitem_def extract_selected_def name_4090)
  apply (simp add: capture_defs one_gpu_env_def rom_small_def blank_world_def tokens_differ)
  apply (simp add: save_defs small_invalid py_lower_def lower_char_def exit_code_def)
  apply (simp add: fun_eq_iff)
  done

text \<open>
  Claim C10. The index check of \<open>main\<close> rejects only indices that are at least the number
  of devices. For every index \<open>-n\<close> with \<open>1 \<le> n \<le> length gpus\<close> (and no \<open>-l\<close>), the
  check lets the run pass, \<open>gpus[-n]\<close> is the device \<open>n\<close> positions from the end of the
  enumeration, and \<open>main\<close> goes on to capture and save the ROM of that device.
\<close>

theorem negative_index_selects_from_end:
  assumes "find_nvidia_gpus env (print LineSearching (print LineBanner w)) = (Inr gpus, w1)"
    and "\<not> arg_list a" and "arg_index a = - int n" and "1 \<le> n" and "n \<le> length gpus"
  shows "py_getitem gpus (arg_index a) = Inr (gpus ! (length gpus - n)) \<and>
         main a env w =
           extract_selected a env (gpus ! (length gpus - n))
             (print_gpus 0 gpus (print (LineFound (length gpus)) w1))"
proof -
  have ne: "gpus \<noteq> []" using assms(4,5) by auto
  have idx: "\<not> int (length gpus) \<le> arg_index a" using assms(3,4) by simp
  have "nat (int (length gpus) - int n) = length gpus - n" by simp
  then have get: "py_getitem gpus (arg_index a) = Inr (gpus ! (length gpus - n))"
    using assms(3,4,5) by (simp add: py_getitem_def)
  show ?thesis
    using assms(1,2) ne idx get by (simp add: main_def Let_def)
qed

theorem negative_index_selects_from_end_witness:
  "main (default_args\<lparr>arg_index := - 1\<rparr>) two_gpu_env blank_world =
     (Returned,
      \<lparr>rom_enabled = (\<lambda>_. False),
       files = [''vbios.rom'' \<mapsto> scenario_a],
       trace = [EvRomWrite second_addr token_enable, EvRomRead second_addr,
                EvRomWrite second_addr token_disable, EvFileWrite ''vbios.rom'' scenario_a],
       stdout = [LineBanner, LineSearching, LineFound 2,
                 LineGpu 0 gpu_addr ''RTX 4090'' ''0x2684'',
                 LineGpu 1 second_addr ''RTX 4080'' ''0x2704'',
                 LineExtracting ''RTX 4080'' second_addr,
                 LineValidation MsgPcirFound, LineSaved ''vbios.rom'' 100,
                 LineSuccess, LineNextSteps, LineStep 1 ''vbios.rom'', LineStep 2 [],
                 LineStep 3 []]\<rparr>)"
proof -
  have found: "find_nvidia_gpus two_gpu_env (print LineSearching (print LineBanner blank_world)) =
      (Inr [(gpu_addr, ''0x2684''), (second_addr, ''0x2704'')],
       print LineSearching (print LineBanner blank_world))"
    by (simp add: find_nvidia_gpus_def two_gpu_env_def attr_exists_def read_attr_def
        py_strip_def is_space_def)
  have sel: "main (default_args\<lparr>arg_index := - 1\<rparr>) two_gpu_env blank_world =
      extract_selected (default_args\<lparr>arg_index := - 1\<rparr>) two_gpu_env (second_addr, ''0x2704'')
        (print_gpus 0 [(gpu_addr, ''0x2684''), (second_addr, ''0x2704'')]
           (print (LineFound 2) (print LineSearching (print LineBanner blank_world))))"
    using negative_index_selects_from_end [OF found, of "default_args\<lparr>arg_index := - 1\<rparr>" 1]
    by (simp add: default_args_def numeral_2_eq_2)
  show ?thesis
    apply (simp add: sel extract_selected_def name_4080 name_4090 print_def)
    apply (simp add: capture_defs two_gpu_env_def rom_ok_def blank_world_def tokens_differ
        second_addr_def gpu_addr_def)
    apply (simp add: save_defs scenario_a_valid default_args_def)
    apply (simp add: scenario_a_def fun_eq_iff)
    done
qed

end
